theory Spec2Isabelle
  imports Complex_Main "HOL-Library.AList"
begin

section \<open>Strings as the source uses them\<close>

text \<open>
  Labels and target tokens are Python \<open>str\<close> values. They are modelled as lists of
  8-bit characters; \<open>upper\<close>, \<open>lower\<close> and \<open>strip\<close> act as Python does on ASCII
  text (letters a-z / A-Z, and the ASCII white space characters 9-13, 28-31 and 32).
\<close>

definition is_space :: "char \<Rightarrow> bool" where
  "is_space c = (c \<in> set [CHR 0x09, CHR 0x0A, CHR 0x0B, CHR 0x0C, CHR 0x0D,
                           CHR 0x1C, CHR 0x1D, CHR 0x1E, CHR 0x1F, CHR '' ''])"

definition strip :: "string \<Rightarrow> string" where
  "strip s = rev (dropWhile is_space (rev (dropWhile is_space s)))"

definition upper_char :: "char \<Rightarrow> char" where
  "upper_char c =
     (case map_of (zip ''abcdefghijklmnopqrstuvwxyz'' ''ABCDEFGHIJKLMNOPQRSTUVWXYZ'') c of
        Some u \<Rightarrow> u | None \<Rightarrow> c)"

definition lower_char :: "char \<Rightarrow> char" where
  "lower_char c =
     (case map_of (zip ''ABCDEFGHIJKLMNOPQRSTUVWXYZ'' ''abcdefghijklmnopqrstuvwxyz'') c of
        Some l \<Rightarrow> l | None \<Rightarrow> c)"

definition upper :: "string \<Rightarrow> string" where
  "upper s = map upper_char s"

definition lower :: "string \<Rightarrow> string" where
  "lower s = map lower_char s"

text \<open>\<open>identifier.replace("player", "")\<close>: every non-overlapping occurrence, left to right.\<close>

fun remove_player :: "string \<Rightarrow> string" where
  "remove_player [] = []"
| "remove_player (c # cs) =
     (if take 6 (c # cs) = ''player'' then remove_player (drop 5 cs)
      else c # remove_player cs)"

text \<open>
  Python's \<open>int(str)\<close> in base 10: surrounding white space is ignored, one optional
  sign, then decimal digits in which single underscores may separate digits. Anything
  else raises \<open>ValueError\<close>, which is \<open>None\<close> here.
\<close>

definition is_digit :: "char \<Rightarrow> bool" where
  "is_digit c = (c \<in> set ''0123456789'')"

definition digit_val :: "char \<Rightarrow> int" where
  "digit_val c =
     (case map_of (zip ''0123456789'' [0, 1, 2, 3, 4, 5, 6, 7, 8, 9]) c of
        Some v \<Rightarrow> v | None \<Rightarrow> 0)"

fun parse_digits :: "int \<Rightarrow> string \<Rightarrow> int option" where
  "parse_digits acc [] = Some acc"
| "parse_digits acc [c] = (if is_digit c then Some (acc * 10 + digit_val c) else None)"
| "parse_digits acc (c # d # ds) =
     (if is_digit c then parse_digits (acc * 10 + digit_val c) (d # ds)
      else if c = CHR ''_'' \<and> is_digit d then parse_digits (acc * 10 + digit_val d) ds
      else None)"

definition parse_unsigned :: "string \<Rightarrow> int option" where
  "parse_unsigned s =
     (case s of [] \<Rightarrow> None
      | c # cs \<Rightarrow> if is_digit c then parse_digits (digit_val c) cs else None)"

definition py_int :: "string \<Rightarrow> int option" where
  "py_int s =
     (case strip s of [] \<Rightarrow> None
      | c # cs \<Rightarrow>
          if c = CHR ''-'' then map_option uminus (parse_unsigned cs)
          else if c = CHR ''+'' then parse_unsigned cs
          else parse_unsigned (c # cs))"

text \<open>\<open>str(n)\<close> as an f-string prints it: decimal digits, a minus sign for negatives.\<close>

fun nat_digits :: "nat \<Rightarrow> string" where
  "nat_digits n =
     (if n < 10 then [''0123456789'' ! n]
      else nat_digits (n div 10) @ [''0123456789'' ! (n mod 10)])"

definition py_str :: "int \<Rightarrow> string" where
  "py_str i = (if i < 0 then CHR ''-'' # nat_digits (nat (- i)) else nat_digits (nat i))"


section \<open>Card zones\<close>

text \<open>
  A Python \<open>dict\<close> keeps its keys in insertion order, so \<open>cards\<close> is an association
  list: \<open>AList.update\<close> overwrites an existing key in place and appends a new one,
  \<open>AList.delete\<close> is \<open>del\<close>, \<open>map_of\<close> is the lookup. Two dicts are equal in
  Python (\<open>==\<close>) when their \<open>map_of\<close> agree.
\<close>

record CardZone =
  name :: string
  cards :: "(string \<times> int) list"

text \<open>
  \<open>cards\<close> is a \<open>defaultdict(int)\<close>: reading a missing key with \<open>self.cards[card]\<close>
  stores the default 0 under that key and returns it.
\<close>

definition dd_get :: "(string \<times> int) list \<Rightarrow> string \<Rightarrow> int \<times> (string \<times> int) list" where
  "dd_get d k = (case map_of d k of Some v \<Rightarrow> (v, d) | None \<Rightarrow> (0, AList.update k 0 d))"

definition new_zone :: "string \<Rightarrow> CardZone" where
  "new_zone n = \<lparr>name = n, cards = []\<rparr>"

definition add_card :: "CardZone \<Rightarrow> string \<Rightarrow> int \<Rightarrow> CardZone" where
  "add_card z crd count =
     (let crd = strip (upper crd);
          (v, d) = dd_get (cards z) crd
      in z\<lparr>cards := AList.update crd (v + count) d\<rparr>)"

definition remove_card :: "CardZone \<Rightarrow> string \<Rightarrow> int \<Rightarrow> bool \<times> CardZone" where
  "remove_card z crd count =
     (let crd = strip (upper crd);
          (v, d) = dd_get (cards z) crd
      in if v \<ge> count then
           (let d' = AList.update crd (v - count) d
            in (True, z\<lparr>cards := (if v - count = 0 then AList.delete crd d' else d')\<rparr>))
         else (False, z\<lparr>cards := d\<rparr>))"

definition get_all_cards :: "CardZone \<Rightarrow> string list" where
  "get_all_cards z = concat (map (\<lambda>(crd, count). replicate (nat count) crd) (cards z))"

definition clear :: "CardZone \<Rightarrow> string list \<times> CardZone" where
  "clear z = (get_all_cards z, z\<lparr>cards := []\<rparr>)"

definition total_cards :: "CardZone \<Rightarrow> int" where
  "total_cards z = sum_list (map snd (cards z))"

text \<open>The loops \<open>for card in cs: zone.add_card(card)\<close> of \<open>clear_hands\<close>.\<close>

definition add_cards :: "CardZone \<Rightarrow> string list \<Rightarrow> CardZone" where
  "add_cards z cs = foldl (\<lambda>z c. add_card z c 1) z cs"

text \<open>The serialised form of a zone: the dict with the keys \<open>"name"\<close> and \<open>"cards"\<close>.\<close>

record ZoneDict =
  zd_name :: string
  zd_cards :: "(string \<times> int) list"

definition zone_to_dict :: "CardZone \<Rightarrow> ZoneDict" where
  "zone_to_dict z = \<lparr>zd_name = name z, zd_cards = cards z\<rparr>"

definition zone_from_dict :: "ZoneDict \<Rightarrow> CardZone" where
  "zone_from_dict data = (new_zone (zd_name data))\<lparr>cards := zd_cards data\<rparr>"

section \<open>Game state\<close>

record GameState =
  deck :: CardZone
  dealer_hand :: CardZone
  discard :: CardZone
  face_down :: CardZone
  face_down_owners :: "(string \<times> int) list"
  players :: "(int \<times> CardZone) list"
  next_player_number :: int

definition rank_labels :: "string list" where
  "rank_labels =
     [''2'', ''3'', ''4'', ''5''] @ [''6'', ''7'', ''8'', ''9'', ''10''] @ [''J'', ''Q'', ''K'', ''A'']"

definition initialize_deck :: "GameState \<Rightarrow> GameState" where
  "initialize_deck s =
     s\<lparr>deck := foldl (\<lambda>z crd. add_card z crd 4) (snd (clear (deck s))) rank_labels\<rparr>"

definition new_game_state :: GameState where
  "new_game_state =
     initialize_deck
       \<lparr>deck = new_zone ''Deck'', dealer_hand = new_zone ''Dealer Hand'',
        discard = new_zone ''Discard Pile'', face_down = new_zone ''Face Down'',
        face_down_owners = [], players = [], next_player_number = 1\<rparr>"

text \<open>
  What an operation answers. The source returns a message; the constructor records
  which message it is and the values printed in it. \<open>is_failure\<close> marks the messages
  the source prefixes with its failure sign.
\<close>

datatype reply =
    Added int
  | CardNotAvailable string
  | DealtDealer string
  | DealtPlayer string int
  | InvalidZone string
  | NoCardsLeft
  | DealtFaceDown string
  | InvalidTarget string
  | NoFaceDown string
  | Flipped string string
  | DealerHit string
  | PlayerHit int string
  | Cleared int int int int
  | Shuffled

fun is_failure :: "reply \<Rightarrow> bool" where
  "is_failure (CardNotAvailable _) = True"
| "is_failure (InvalidZone _) = True"
| "is_failure NoCardsLeft = True"
| "is_failure (InvalidTarget _) = True"
| "is_failure (NoFaceDown _) = True"
| "is_failure _ = False"

definition add_player :: "GameState \<Rightarrow> reply \<times> GameState" where
  "add_player s =
     (let player_num = next_player_number s
      in (Added player_num,
          s\<lparr>players := AList.update player_num
                          (new_zone (''Player '' @ py_str player_num @ '' Hand'')) (players s),
            next_player_number := next_player_number s + 1\<rparr>))"

text \<open>\<open>(None, None)\<close> is \<open>None\<close>; a found player is its number and its zone.\<close>

definition get_player_zone :: "GameState \<Rightarrow> string \<Rightarrow> (int \<times> CardZone) option" where
  "get_player_zone s identifier =
     (let identifier = strip (lower identifier);
          identifier = strip (remove_player identifier);
          identifier = (if identifier = [] then ''1'' else identifier)
      in case py_int identifier of
           None \<Rightarrow> None
         | Some player_num \<Rightarrow>
             (case map_of (players s) player_num of
                Some zone \<Rightarrow> Some (player_num, zone)
              | None \<Rightarrow> None))"

definition deal_card :: "GameState \<Rightarrow> string \<Rightarrow> string \<Rightarrow> reply \<times> GameState" where
  "deal_card s crd to_zone =
     (let crd = strip (upper crd);
          (ok, dk) = remove_card (deck s) crd 1;
          s = s\<lparr>deck := dk\<rparr>
      in if \<not> ok then (CardNotAvailable crd, s)
         else if lower to_zone = ''dealer''
         then (DealtDealer crd, s\<lparr>dealer_hand := add_card (dealer_hand s) crd 1\<rparr>)
         else (case get_player_zone s to_zone of
                 Some (player_num, player_zone) \<Rightarrow>
                   (DealtPlayer crd player_num,
                    s\<lparr>players := AList.update player_num (add_card player_zone crd 1) (players s)\<rparr>)
               | None \<Rightarrow> (InvalidZone to_zone, s\<lparr>deck := add_card (deck s) crd 1\<rparr>)))"

text \<open>
  \<open>if player_num:\<close> tests the number itself, so a player numbered 0 would count as
  not found here.
\<close>

definition deal_face_down :: "GameState \<Rightarrow> string \<Rightarrow> reply \<times> GameState" where
  "deal_face_down s to_zone =
     (let total_available = total_cards (deck s) + total_cards (face_down s)
      in if total_available = 0 then (NoCardsLeft, s)
         else
           (case (if lower to_zone = ''dealer'' then Some (''dealer'', ''Dealer'')
                  else (case get_player_zone s to_zone of
                          Some (player_num, _) \<Rightarrow>
                            if player_num \<noteq> 0
                            then Some (''player'' @ py_str player_num, ''Player '' @ py_str player_num)
                            else None
                        | None \<Rightarrow> None)) of
              None \<Rightarrow> (InvalidZone to_zone, s)
            | Some (owner_key, display_name) \<Rightarrow>
                (let fd = add_card (face_down s) ''FACEDOWN'' 1;
                     owners = face_down_owners s;
                     owners = (case map_of owners owner_key of
                                 None \<Rightarrow> AList.update owner_key (0 + 1) (AList.update owner_key 0 owners)
                               | Some c \<Rightarrow> AList.update owner_key (c + 1) owners)
                 in (DealtFaceDown display_name, s\<lparr>face_down := fd, face_down_owners := owners\<rparr>))))"

definition flip_card :: "GameState \<Rightarrow> string \<Rightarrow> string \<Rightarrow> reply \<times> GameState" where
  "flip_card s who crd =
     (let crd = strip (upper crd)
      in case (if lower who = ''dealer'' then Some (''dealer'', None, ''Dealer'')
               else (case get_player_zone s who of
                       Some (player_num, _) \<Rightarrow>
                         Some (''player'' @ py_str player_num, Some player_num,
                               ''Player '' @ py_str player_num)
                     | None \<Rightarrow> None)) of
           None \<Rightarrow> (InvalidTarget who, s)
         | Some (owner_key, target, display_name) \<Rightarrow>
             (case map_of (face_down_owners s) owner_key of
                None \<Rightarrow> (NoFaceDown display_name, s)
              | Some c \<Rightarrow>
                  if c = 0 then (NoFaceDown display_name, s)
                  else
                    (let (ok, dk) = remove_card (deck s) crd 1;
                         s = s\<lparr>deck := dk\<rparr>
                     in if \<not> ok then (CardNotAvailable crd, s)
                        else
                          (let fd = snd (remove_card (face_down s) ''FACEDOWN'' 1);
                               owners = AList.update owner_key (c - 1) (face_down_owners s);
                               owners = (if c - 1 = 0 then AList.delete owner_key owners else owners);
                               s = s\<lparr>face_down := fd, face_down_owners := owners\<rparr>
                           in (Flipped display_name crd,
                               case target of
                                 None \<Rightarrow> s\<lparr>dealer_hand := add_card (dealer_hand s) crd 1\<rparr>
                               | Some player_num \<Rightarrow>
                                   (case map_of (players s) player_num of
                                      Some player_zone \<Rightarrow>
                                        s\<lparr>players := AList.update player_num
                                                        (add_card player_zone crd 1) (players s)\<rparr>
                                    | None \<Rightarrow> s))))))"

definition hit :: "GameState \<Rightarrow> string \<Rightarrow> string \<Rightarrow> reply \<times> GameState" where
  "hit s crd who =
     (let crd = strip (upper crd);
          (ok, dk) = remove_card (deck s) crd 1;
          s = s\<lparr>deck := dk\<rparr>
      in if \<not> ok then (CardNotAvailable crd, s)
         else if lower who = ''dealer''
         then (DealerHit crd, s\<lparr>dealer_hand := add_card (dealer_hand s) crd 1\<rparr>)
         else (case get_player_zone s who of
                 Some (player_num, player_zone) \<Rightarrow>
                   (PlayerHit player_num crd,
                    s\<lparr>players := AList.update player_num (add_card player_zone crd 1) (players s)\<rparr>)
               | None \<Rightarrow> (InvalidTarget who, s\<lparr>deck := add_card (deck s) crd 1\<rparr>)))"

text \<open>
  The first loop of \<open>clear_hands\<close>: each player zone in turn is drained into the
  discard pile; the result is the drained zones, the discard pile and the count.
\<close>

fun clear_players :: "(int \<times> CardZone) list \<Rightarrow> CardZone \<Rightarrow> int
    \<Rightarrow> (int \<times> CardZone) list \<times> CardZone \<times> int" where
  "clear_players [] disc total_cleared = ([], disc, total_cleared)"
| "clear_players ((player_num, player_zone) # ps) disc total_cleared =
     (let (player_cards, z) = clear player_zone;
          disc = add_cards disc player_cards;
          (ps', disc', total') = clear_players ps disc (total_cleared + int (length player_cards))
      in ((player_num, z) # ps', disc', total'))"

definition clear_hands :: "GameState \<Rightarrow> reply \<times> GameState" where
  "clear_hands s =
     (let (ps, disc, total_cleared) = clear_players (players s) (discard s) 0;
          (dealer_cards, dh) = clear (dealer_hand s);
          disc = add_cards disc dealer_cards;
          face_down_count = total_cards (face_down s);
          (fd, disc) = (if face_down_count > 0
                        then (snd (clear (face_down s)),
                              add_cards disc (replicate (nat face_down_count) ''UNKNOWN''))
                        else (face_down s, disc))
      in (Cleared total_cleared (int (length dealer_cards)) face_down_count (int (length ps)),
          s\<lparr>players := ps, dealer_hand := dh, discard := disc, face_down := fd,
            face_down_owners := []\<rparr>))"

definition shuffle :: "GameState \<Rightarrow> reply \<times> GameState" where
  "shuffle s =
     (Shuffled,
      initialize_deck
        (s\<lparr>dealer_hand := snd (clear (dealer_hand s)),
           discard := snd (clear (discard s)),
           face_down := snd (clear (face_down s)),
           face_down_owners := [],
           players := [],
           next_player_number := 1\<rparr>))"


section \<open>Hand totals and the probability query\<close>

datatype error = ValueError

text \<open>The \<open>for\<close> loop of \<open>calculate_hand_total\<close>, carrying \<open>total\<close> and \<open>aces\<close>.\<close>

fun sum_cards :: "string list \<Rightarrow> int \<Rightarrow> int \<Rightarrow> error + (int \<times> int)" where
  "sum_cards [] tot aces = Inr (tot, aces)"
| "sum_cards (crd # cs) tot aces =
     (let crd = strip (upper crd)
      in if crd \<in> set [''J'', ''Q'', ''K''] then sum_cards cs (tot + 10) aces
         else if crd = ''A'' then sum_cards cs (tot + 11) (aces + 1)
         else (case py_int crd of
                 None \<Rightarrow> Inl ValueError
               | Some v \<Rightarrow> sum_cards cs (tot + v) aces))"

text \<open>The \<open>while total > 21 and aces > 0\<close> loop.\<close>

function adjust_aces :: "int \<Rightarrow> int \<Rightarrow> int" where
  "adjust_aces tot aces =
     (if tot > 21 \<and> aces > 0 then adjust_aces (tot - 10) (aces - 1) else tot)"
  by pat_completeness auto
termination
  by (relation "measure (\<lambda>(tot, aces). nat aces)") auto

declare adjust_aces.simps [simp del]

definition calculate_hand_total :: "string list \<Rightarrow> error + int" where
  "calculate_hand_total cs =
     (case sum_cards cs 0 0 of
        Inl e \<Rightarrow> Inl e
      | Inr (tot, aces) \<Rightarrow> Inr (adjust_aces tot aces))"

definition get_hand_cards :: "GameState \<Rightarrow> string \<Rightarrow> string list" where
  "get_hand_cards s who =
     (if lower who = ''dealer'' then get_all_cards (dealer_hand s)
      else (case get_player_zone s who of
              Some (player_num, player_zone) \<Rightarrow> get_all_cards player_zone
            | None \<Rightarrow> []))"

text \<open>
  The loop over \<open>available_cards.items()\<close>: every entry of the deck's mapping, whatever
  its count, is tried as the next card.
\<close>

fun count_outcomes :: "(string \<times> int) list \<Rightarrow> string list \<Rightarrow> int
    \<Rightarrow> int \<Rightarrow> int \<Rightarrow> int \<Rightarrow> error + (int \<times> int \<times> int)" where
  "count_outcomes [] current_hand threshold greater_count less_count equal_count =
     Inr (greater_count, less_count, equal_count)"
| "count_outcomes ((crd, count) # rest) current_hand threshold greater_count less_count equal_count =
     (case calculate_hand_total (current_hand @ [crd]) of
        Inl e \<Rightarrow> Inl e
      | Inr new_total \<Rightarrow>
          if new_total > threshold
          then count_outcomes rest current_hand threshold (greater_count + count) less_count equal_count
          else if new_total < threshold
          then count_outcomes rest current_hand threshold greater_count (less_count + count) equal_count
          else count_outcomes rest current_hand threshold greater_count less_count (equal_count + count))"

text \<open>
  The answer of the query. The percentages are floats in the source; here they are the
  exact rationals the floats approximate.
\<close>

datatype analysis =
    EmptyHand string
  | NoCardsInDeck
  | Analysis (an_current_total: int) (an_total_available: int)
      (an_greater_count: int) (an_less_count: int) (an_equal_count: int)
      (an_greater_pct: rat) (an_less_pct: rat) (an_equal_pct: rat)

definition calculate_probability_after_hit :: "GameState \<Rightarrow> string \<Rightarrow> int \<Rightarrow> error + analysis" where
  "calculate_probability_after_hit s who threshold =
     (let current_hand = get_hand_cards s who
      in if current_hand = [] then Inr (EmptyHand who)
         else (case calculate_hand_total current_hand of
                 Inl e \<Rightarrow> Inl e
               | Inr current_total \<Rightarrow>
                   (let available_cards = cards (deck s);
                        total_available = sum_list (map snd available_cards)
                    in if total_available = 0 then Inr NoCardsInDeck
                       else (case count_outcomes available_cards current_hand threshold 0 0 0 of
                               Inl e \<Rightarrow> Inl e
                             | Inr (g, l, e) \<Rightarrow>
                                 Inr (Analysis current_total total_available g l e
                                        (of_int g / of_int total_available * 100)
                                        (of_int l / of_int total_available * 100)
                                        (of_int e / of_int total_available * 100))))))"

section \<open>Serialisation\<close>

text \<open>
  A key of the serialised player mapping is a number as \<open>to_dict\<close> writes it, or text
  as it comes back from JSON; \<open>int(num)\<close> accepts both.
\<close>

datatype pykey = KInt int | KStr string

fun key_int :: "pykey \<Rightarrow> int option" where
  "key_int (KInt n) = Some n"
| "key_int (KStr t) = py_int t"

record StateDict =
  sd_deck :: ZoneDict
  sd_dealer_hand :: ZoneDict
  sd_discard :: ZoneDict
  sd_face_down :: ZoneDict
  sd_face_down_owners :: "(string \<times> int) list"
  sd_players :: "(pykey \<times> ZoneDict) list"
  sd_next_player_number :: int

text \<open>The two dict comprehensions: entries are stored one after the other.\<close>

fun players_to_dict :: "(int \<times> CardZone) list \<Rightarrow> (pykey \<times> ZoneDict) list
    \<Rightarrow> (pykey \<times> ZoneDict) list" where
  "players_to_dict [] acc = acc"
| "players_to_dict ((num, zone) # ps) acc =
     players_to_dict ps (AList.update (KInt num) (zone_to_dict zone) acc)"

fun players_from_dict :: "(pykey \<times> ZoneDict) list \<Rightarrow> (int \<times> CardZone) list
    \<Rightarrow> error + (int \<times> CardZone) list" where
  "players_from_dict [] acc = Inr acc"
| "players_from_dict ((num, zone_data) # ps) acc =
     (case key_int num of
        None \<Rightarrow> Inl ValueError
      | Some n \<Rightarrow> players_from_dict ps (AList.update n (zone_from_dict zone_data) acc))"

definition to_dict :: "GameState \<Rightarrow> StateDict" where
  "to_dict s =
     \<lparr>sd_deck = zone_to_dict (deck s),
      sd_dealer_hand = zone_to_dict (dealer_hand s),
      sd_discard = zone_to_dict (discard s),
      sd_face_down = zone_to_dict (face_down s),
      sd_face_down_owners = face_down_owners s,
      sd_players = players_to_dict (players s) [],
      sd_next_player_number = next_player_number s\<rparr>"

definition from_dict :: "StateDict \<Rightarrow> error + GameState" where
  "from_dict data =
     (let state = new_game_state;
          state = state\<lparr>deck := zone_from_dict (sd_deck data)\<rparr>;
          state = state\<lparr>dealer_hand := zone_from_dict (sd_dealer_hand data)\<rparr>;
          state = state\<lparr>discard := zone_from_dict (sd_discard data)\<rparr>;
          state = state\<lparr>face_down := zone_from_dict (sd_face_down data)\<rparr>;
          state = state\<lparr>face_down_owners := sd_face_down_owners data\<rparr>
      in case players_from_dict (sd_players data) [] of
           Inl e \<Rightarrow> Inl e
         | Inr ps \<Rightarrow>
             Inr (state\<lparr>players := ps,
                        next_player_number := sd_next_player_number data\<rparr>))"

section \<open>Runs of operations\<close>

text \<open>
  The operations a caller can invoke, and the state after a sequence of them on a
  fresh game. The probability query and the status report only read the state.
\<close>

datatype op =
    AddPlayer
  | Deal string string
  | DealFaceDown string
  | Flip string string
  | Hit string string
  | ClearHands
  | Shuffle
  | Probability string int
  | Status

fun perform :: "GameState \<Rightarrow> op \<Rightarrow> GameState" where
  "perform s AddPlayer = snd (add_player s)"
| "perform s (Deal crd to_zone) = snd (deal_card s crd to_zone)"
| "perform s (DealFaceDown to_zone) = snd (deal_face_down s to_zone)"
| "perform s (Flip who crd) = snd (flip_card s who crd)"
| "perform s (Hit crd who) = snd (hit s crd who)"
| "perform s ClearHands = snd (clear_hands s)"
| "perform s Shuffle = snd (shuffle s)"
| "perform s (Probability who threshold) = s"
| "perform s Status = s"

definition run :: "op list \<Rightarrow> GameState" where
  "run ops = foldl perform new_game_state ops"

text \<open>The sum the status report prints as "Total cards tracked".\<close>

definition total_in_play :: "GameState \<Rightarrow> int" where
  "total_in_play s =
     total_cards (deck s) + total_cards (face_down s) + total_cards (dealer_hand s)
     + total_cards (discard s) + sum_list (map (\<lambda>(n, z). total_cards z) (players s))"


section \<open>Well-formed states\<close>

text \<open>
  \<open>count_of\<close> reads a count without storing anything (\<open>cards.get(k, 0)\<close>). The
  predicates below describe the states that runs produce: the deck holds the thirteen
  ranks (and possibly entries of count 0), a hand holds ranks with positive counts, the
  face-down zone holds nothing but \<open>FACEDOWN\<close>, the owner ledger adds up to the
  face-down zone, and player numbers lie below the next number to be assigned.
\<close>

definition count_of :: "CardZone \<Rightarrow> string \<Rightarrow> int" where
  "count_of z k = (case map_of (cards z) k of Some v \<Rightarrow> v | None \<Rightarrow> 0)"

definition deck_ok :: "CardZone \<Rightarrow> bool" where
  "deck_ok z \<longleftrightarrow>
     distinct (map fst (cards z)) \<and>
     (\<forall>c n. map_of (cards z) c = Some n \<longrightarrow> 0 \<le> n \<and> (0 < n \<longrightarrow> c \<in> set rank_labels))"

definition hand_ok :: "CardZone \<Rightarrow> bool" where
  "hand_ok z \<longleftrightarrow>
     distinct (map fst (cards z)) \<and>
     (\<forall>c n. map_of (cards z) c = Some n \<longrightarrow> 0 < n \<and> c \<in> set rank_labels)"

definition face_down_ok :: "CardZone \<Rightarrow> bool" where
  "face_down_ok z \<longleftrightarrow> cards z = [] \<or> (\<exists>n. 0 < n \<and> cards z = [(''FACEDOWN'', n)])"

definition owners_ok :: "GameState \<Rightarrow> bool" where
  "owners_ok s \<longleftrightarrow>
     distinct (map fst (face_down_owners s)) \<and>
     (\<forall>k n. map_of (face_down_owners s) k = Some n \<longrightarrow> 0 < n) \<and>
     sum_list (map snd (face_down_owners s)) = total_cards (face_down s)"

definition players_ok :: "GameState \<Rightarrow> bool" where
  "players_ok s \<longleftrightarrow>
     distinct (map fst (players s)) \<and> 0 < next_player_number s \<and>
     (\<forall>n z. map_of (players s) n = Some z \<longrightarrow> hand_ok z \<and> 0 < n \<and> n < next_player_number s)"

definition conserved :: "GameState \<Rightarrow> bool" where
  "conserved s \<longleftrightarrow>
     total_in_play s = 52 + total_cards (face_down s) + count_of (discard s) ''UNKNOWN''"

definition wf :: "GameState \<Rightarrow> bool" where
  "wf s \<longleftrightarrow>
     deck_ok (deck s) \<and> hand_ok (dealer_hand s) \<and> face_down_ok (face_down s) \<and>
     owners_ok s \<and> players_ok s \<and> conserved s"

section \<open>Evaluating the string functions\<close>

lemmas str_eval =
  strip_def upper_def lower_def upper_char_def lower_char_def is_space_def
  py_int_def parse_unsigned_def is_digit_def digit_val_def py_str_def

lemma norm_rank: "r \<in> set rank_labels \<Longrightarrow> strip (upper r) = r"
  by (auto simp: rank_labels_def str_eval)

lemma fresh_deck:
  "cards z = [] \<Longrightarrow>
   foldl (\<lambda>z crd. add_card z crd 4) z rank_labels = z\<lparr>cards := map (\<lambda>r. (r, 4)) rank_labels\<rparr>"
  by (simp add: rank_labels_def add_card_def dd_get_def str_eval)

lemma new_game_state_eq:
  "new_game_state =
     \<lparr>deck = \<lparr>name = ''Deck'', cards = map (\<lambda>r. (r, 4)) rank_labels\<rparr>,
      dealer_hand = new_zone ''Dealer Hand'', discard = new_zone ''Discard Pile'',
      face_down = new_zone ''Face Down'', face_down_owners = [], players = [],
      next_player_number = 1\<rparr>"
  by (simp add: new_game_state_def initialize_deck_def clear_def new_zone_def fresh_deck)

section \<open>Association lists and zones\<close>

lemma sum_snd_update:
  "sum_list (map snd (AList.update k (v::int) d))
   = sum_list (map snd d) - (case map_of d k of Some w \<Rightarrow> w | None \<Rightarrow> 0) + v"
  by (induction d) auto

lemma sum_snd_delete:
  "distinct (map fst d) \<Longrightarrow>
   sum_list (map snd (AList.delete k d))
   = sum_list (map snd d) - (case map_of d k of Some (w::int) \<Rightarrow> w | None \<Rightarrow> 0)"
proof (induction d)
  case Nil
  then show ?case by simp
next
  case (Cons p d)
  obtain a b where p: "p = (a, b)" by (cases p)
  show ?case
  proof (cases "a = k")
    case True
    with Cons.prems p have "k \<notin> fst ` set d" by auto
    then have "AList.delete k d = d" by simp
    with True p show ?thesis by simp
  next
    case False
    with Cons p show ?thesis by simp
  qed
qed

lemma map_of_dd_get:
  "map_of (snd (dd_get d k)) = (map_of d)(k \<mapsto> fst (dd_get d k))"
  by (auto simp: dd_get_def update_conv' split: option.splits)

lemma fst_dd_get: "fst (dd_get (cards z) k) = count_of z k"
  by (simp add: dd_get_def count_of_def split: option.splits)

lemma sum_dd_get: "sum_list (map snd (snd (dd_get d k))) = sum_list (map snd d)"
  by (simp add: dd_get_def sum_snd_update split: option.splits)

lemma distinct_dd_get: "distinct (map fst d) \<Longrightarrow> distinct (map fst (snd (dd_get d k)))"
  by (simp add: dd_get_def distinct_update split: option.splits)

lemma map_of_add_card:
  "map_of (cards (add_card z c n))
   = (map_of (cards z))(strip (upper c) \<mapsto> count_of z (strip (upper c)) + n)"
  by (simp add: add_card_def Let_def split_beta update_conv' map_of_dd_get fst_dd_get)

lemma name_add_card [simp]: "name (add_card z c n) = name z"
  by (simp add: add_card_def Let_def split_beta)

lemma total_add_card: "total_cards (add_card z c n) = total_cards z + n"
  by (simp add: add_card_def Let_def split_beta total_cards_def sum_snd_update
      map_of_dd_get sum_dd_get)

lemma distinct_add_card:
  "distinct (map fst (cards z)) \<Longrightarrow> distinct (map fst (cards (add_card z c n)))"
  by (simp add: add_card_def Let_def split_beta distinct_update distinct_dd_get)

lemma count_of_add_card:
  "count_of (add_card z c n) k
   = (if k = strip (upper c) then count_of z k + n else count_of z k)"
  by (simp add: count_of_def map_of_add_card)

lemma fst_remove_card: "fst (remove_card z c n) \<longleftrightarrow> n \<le> count_of z (strip (upper c))"
  by (simp add: remove_card_def Let_def split_beta fst_dd_get)

lemma name_remove_card [simp]: "name (snd (remove_card z c n)) = name z"
  by (simp add: remove_card_def Let_def split_beta)

lemma map_of_remove_card:
  "map_of (cards (snd (remove_card z c n)))
   = (let k = strip (upper c); v = count_of z k in
      if n \<le> v then (if v - n = 0 then (map_of (cards z))(k := None)
                       else (map_of (cards z))(k \<mapsto> v - n))
      else (map_of (cards z))(k \<mapsto> v))"
  by (simp add: remove_card_def Let_def split_beta fst_dd_get update_conv' delete_conv'
      map_of_dd_get)

lemma distinct_remove_card:
  "distinct (map fst (cards z)) \<Longrightarrow> distinct (map fst (cards (snd (remove_card z c n))))"
  by (simp add: remove_card_def Let_def split_beta distinct_update distinct_delete distinct_dd_get)

lemma total_remove_card:
  "distinct (map fst (cards z)) \<Longrightarrow>
   total_cards (snd (remove_card z c n))
   = (if n \<le> count_of z (strip (upper c)) then total_cards z - n else total_cards z)"
  by (simp add: remove_card_def Let_def split_beta total_cards_def fst_dd_get
      sum_snd_delete sum_snd_update distinct_update distinct_dd_get update_conv'
      map_of_dd_get sum_dd_get)

lemma count_of_remove_card:
  "count_of (snd (remove_card z c n)) k
   = (if k = strip (upper c) \<and> n \<le> count_of z k then count_of z k - n else count_of z k)"
  by (auto simp: count_of_def map_of_remove_card Let_def split: option.splits)

lemma deck_ok_remove_card: "deck_ok z \<Longrightarrow> 0 \<le> n \<Longrightarrow> deck_ok (snd (remove_card z c n))"
  unfolding deck_ok_def
  by (auto simp: map_of_remove_card distinct_remove_card Let_def count_of_def
      split: if_splits option.splits)

lemma deck_ok_rank:
  "deck_ok z \<Longrightarrow> 1 \<le> count_of z k \<Longrightarrow> k \<in> set rank_labels"
  unfolding deck_ok_def by (auto simp: count_of_def split: option.splits)

lemma deck_ok_put_back:
  "deck_ok z \<Longrightarrow> fst (remove_card z c 1) \<Longrightarrow> deck_ok (add_card (snd (remove_card z c 1)) c 1)"
  unfolding deck_ok_def
  by (auto simp: fst_remove_card map_of_add_card map_of_remove_card distinct_add_card
      distinct_remove_card Let_def count_of_def split: if_splits option.splits)

lemma map_of_put_back:
  "fst (remove_card z c 1) \<Longrightarrow>
   map_of (cards (add_card (snd (remove_card z c 1)) c 1)) = map_of (cards z)"
  by (auto simp: fst_remove_card map_of_add_card map_of_remove_card count_of_remove_card
      Let_def count_of_def fun_eq_iff split: if_splits option.splits)

lemma total_put_back:
  "distinct (map fst (cards z)) \<Longrightarrow> fst (remove_card z c 1) \<Longrightarrow>
   total_cards (add_card (snd (remove_card z c 1)) c 1) = total_cards z"
  by (simp add: total_add_card total_remove_card fst_remove_card)

lemma hand_ok_add_card:
  "hand_ok z \<Longrightarrow> strip (upper c) \<in> set rank_labels \<Longrightarrow> hand_ok (add_card z c 1)"
  unfolding hand_ok_def
  by (fastforce simp: map_of_add_card distinct_add_card count_of_def
      split: if_splits option.splits)

lemma hand_ok_new_zone: "hand_ok (new_zone n)"
  by (simp add: hand_ok_def new_zone_def)

lemma hand_ok_cleared: "hand_ok (z\<lparr>cards := []\<rparr>)"
  by (simp add: hand_ok_def)

lemma hand_ok_nonneg: "hand_ok z \<Longrightarrow> (c, n) \<in> set (cards z) \<Longrightarrow> 0 < n \<and> c \<in> set rank_labels"
  unfolding hand_ok_def by (metis map_of_is_SomeI)

lemma length_expand:
  "\<forall>(c, n) \<in> set d. 0 \<le> n \<Longrightarrow>
   int (length (concat (map (\<lambda>(c, n). replicate (nat n) c) d))) = sum_list (map snd d)"
  by (induction d) auto

lemma length_get_all_cards:
  "\<forall>(c, n) \<in> set (cards z). 0 \<le> n \<Longrightarrow> int (length (get_all_cards z)) = total_cards z"
  unfolding get_all_cards_def total_cards_def by (rule length_expand)

lemma set_get_all_cards: "set (get_all_cards z) \<subseteq> fst ` set (cards z)"
  unfolding get_all_cards_def by force

lemma total_add_cards: "total_cards (add_cards z cs) = total_cards z + int (length cs)"
  unfolding add_cards_def by (induction cs arbitrary: z) (auto simp: total_add_card)

lemma count_of_add_cards_other:
  "\<forall>c \<in> set cs. strip (upper c) \<noteq> k \<Longrightarrow> count_of (add_cards z cs) k = count_of z k"
  unfolding add_cards_def by (induction cs arbitrary: z) (auto simp: count_of_add_card)

lemma count_of_add_cards_unknown:
  "count_of (add_cards z (replicate m ''UNKNOWN'')) ''UNKNOWN'' = count_of z ''UNKNOWN'' + int m"
  unfolding add_cards_def
  by (induction m arbitrary: z) (auto simp: count_of_add_card str_eval)

lemma rank_not_unknown: "c \<in> set rank_labels \<Longrightarrow> strip (upper c) \<noteq> ''UNKNOWN''"
  by (auto simp: norm_rank) (simp add: rank_labels_def)

section \<open>Shuffle\<close>

text \<open>
  Claim C7. In any state, \<open>shuffle\<close> leaves the deck with exactly four of each of the
  thirteen ranks (52 cards), empties the dealer hand, the discard pile, the face-down
  zone, the owner ledger and the player mapping, and sets the next player number to 1.
  It holds in every state, so in every reachable one.
\<close>

theorem shuffle_restores_full_deck:
  "cards (deck (snd (shuffle s))) = map (\<lambda>r. (r, 4)) rank_labels
   \<and> total_cards (deck (snd (shuffle s))) = 52
   \<and> cards (dealer_hand (snd (shuffle s))) = []
   \<and> cards (discard (snd (shuffle s))) = []
   \<and> cards (face_down (snd (shuffle s))) = []
   \<and> face_down_owners (snd (shuffle s)) = []
   \<and> players (snd (shuffle s)) = []
   \<and> next_player_number (snd (shuffle s)) = 1"
  by (simp add: shuffle_def initialize_deck_def clear_def fresh_deck total_cards_def)
     (simp add: rank_labels_def)

end
